theory Spec2Isabelle
  imports Main
begin

section \<open>The resource reporter of src/src/machine-resources.go\<close>

text \<open>
  The program is one function, \<^verbatim>\<open>main\<close>. It calls two library functions that are not part
  of the repository, \<^verbatim>\<open>resources.GetResources\<close> (LXD) and \<^verbatim>\<open>json.MarshalIndent\<close> (the Go
  standard library), prints with \<^verbatim>\<open>fmt.Printf\<close> and leaves with \<^verbatim>\<open>os.Exit\<close>. The two
  library functions are parameters of the model: what \<^verbatim>\<open>GetResources\<close> returns in a run
  is a field of the host the run happens on, and the serializer is a function taken as an
  argument. The snapshot type \<open>'r\<close> is left open, since the program never looks inside it.
  What holds of the bytes the serializer returns (that they parse back to the snapshot, that
  the indentation does not change the value they denote) is a property of that library and
  not of this program, which passes the bytes on unchanged.
\<close>

subsection \<open>Values\<close>

text \<open>
  A Go \<^verbatim>\<open>error\<close> is an interface with one method, \<^verbatim>\<open>Error() string\<close>; the program only
  tests it against \<^verbatim>\<open>nil\<close> and prints it with \<^verbatim>\<open>%v\<close>, which prints that message. So an
  error is its message, and a possibly-nil error is an \<open>error option\<close> with \<open>None\<close> for
  \<^verbatim>\<open>nil\<close>. A Go function returning \<^verbatim>\<open>(T, error)\<close> returns a pair.
\<close>

datatype error = Err (Error: string)

abbreviation newline :: char where
  "newline \<equiv> CHR 0x0A"

abbreviation tab :: char where
  "tab \<equiv> CHR 0x09"

subsection \<open>The process and what it can observe\<close>

datatype stream = Stdout | Stderr

text \<open>Every call that leaves the program is recorded, in the order it happens.\<close>

datatype 'r event =
    Called_GetResources
  | Called_MarshalIndent 'r string string
  | Wrote stream string

record 'r process =
  stdout :: string
  stderr :: string
  events :: "'r event list"

text \<open>
  The host of a run: the argument vector \<^verbatim>\<open>os.Args\<close> the process was started with, and
  what \<^verbatim>\<open>resources.GetResources()\<close> returns on this machine.
\<close>

record 'r host =
  Args :: "string list"
  Resources :: "'r \<times> error option"

text \<open>\<^verbatim>\<open>json.MarshalIndent(v, prefix, indent)\<close> returns \<^verbatim>\<open>([]byte, error)\<close>.\<close>

type_synonym 'r serializer = "'r \<Rightarrow> string \<Rightarrow> string \<Rightarrow> string \<times> error option"

text \<open>
  A statement either returns to its caller with a value or ends the process:
  \<^verbatim>\<open>os.Exit(code)\<close> never returns.
\<close>

datatype 'a control = Exited int | Returned 'a

type_synonym ('r, 'a) stmt = "'r process \<Rightarrow> 'a control \<times> 'r process"

definition seq :: "('r, 'a) stmt \<Rightarrow> ('a \<Rightarrow> ('r, 'b) stmt) \<Rightarrow> ('r, 'b) stmt" where
  "seq m f p = (case m p of
                  (Exited code, p') \<Rightarrow> (Exited code, p')
                | (Returned a, p') \<Rightarrow> f a p')"

definition skip :: "('r, unit) stmt" where
  "skip p = (Returned (), p)"

subsection \<open>The library calls\<close>

definition GetResources :: "'r host \<Rightarrow> ('r, 'r \<times> error option) stmt" where
  "GetResources h p = (Returned (Resources h), p\<lparr>events := events p @ [Called_GetResources]\<rparr>)"

definition MarshalIndent ::
  "'r serializer \<Rightarrow> 'r \<Rightarrow> string \<Rightarrow> string \<Rightarrow> ('r, string \<times> error option) stmt" where
  "MarshalIndent json v prefix indent p =
     (Returned (json v prefix indent),
      p\<lparr>events := events p @ [Called_MarshalIndent v prefix indent]\<rparr>)"

text \<open>
  \<^verbatim>\<open>fmt.Printf(format, a...)\<close> is \<^verbatim>\<open>fmt.Fprintf(os.Stdout, format, a...)\<close>. The text
  handed over here is the formatted one. The program ignores what \<^verbatim>\<open>Printf\<close> returns, so a
  failed write is not seen by it; the streams of the model accept every write.
\<close>

definition Fprintf :: "stream \<Rightarrow> string \<Rightarrow> ('r, unit) stmt" where
  "Fprintf w s p =
     (Returned (),
      (case w of
         Stdout \<Rightarrow> p\<lparr>stdout := stdout p @ s, events := events p @ [Wrote Stdout s]\<rparr>
       | Stderr \<Rightarrow> p\<lparr>stderr := stderr p @ s, events := events p @ [Wrote Stderr s]\<rparr>))"

definition Printf :: "string \<Rightarrow> ('r, unit) stmt" where
  "Printf s = Fprintf Stdout s"

definition Exit :: "int \<Rightarrow> ('r, 'a) stmt" where
  "Exit code p = (Exited code, p)"

subsection \<open>main\<close>

text \<open>
  \<^verbatim>\<open>
  func main() {
      resources, err := resources.GetResources()
      if err != nil {
          fmt.Printf("error: %v\n", err)
          os.Exit(1)
      }
      data, err := json.MarshalIndent(resources, "", "\t")
      if err != nil {
          fmt.Printf("error: %v\n", err)
          os.Exit(1)
      }
      fmt.Printf("%s\n", data)
  }
  \<close>
  \<^verbatim>\<open>%v\<close> of a non-nil error prints its \<^verbatim>\<open>Error()\<close> text and \<^verbatim>\<open>%s\<close> of a byte slice prints
  the bytes.
\<close>

definition main :: "'r serializer \<Rightarrow> 'r host \<Rightarrow> ('r, unit) stmt" where
  "main json h =
     seq (GetResources h) (\<lambda>(resources, err).
     seq (case err of
            Some e \<Rightarrow> seq (Printf (''error: '' @ Error e @ [newline])) (\<lambda>_. Exit 1)
          | None \<Rightarrow> skip) (\<lambda>_.
     seq (MarshalIndent json resources [] [tab]) (\<lambda>(data, err).
     seq (case err of
            Some e \<Rightarrow> seq (Printf (''error: '' @ Error e @ [newline])) (\<lambda>_. Exit 1)
          | None \<Rightarrow> skip) (\<lambda>_.
     Printf (data @ [newline])))))"

text \<open>
  A process starts with nothing written. When \<^verbatim>\<open>main\<close> returns, the Go runtime ends the
  process with status 0.
\<close>

definition start :: "'r process" where
  "start = \<lparr>stdout = [], stderr = [], events = []\<rparr>"

fun exit_status :: "unit control \<Rightarrow> int" where
  "exit_status (Exited code) = code"
| "exit_status (Returned _) = 0"

definition run :: "'r serializer \<Rightarrow> 'r host \<Rightarrow> int \<times> 'r process" where
  "run json h = (case main json h start of (c, p) \<Rightarrow> (exit_status c, p))"

subsection \<open>Reading a trace\<close>

fun writes :: "'r event list \<Rightarrow> (stream \<times> string) list" where
  "writes [] = []"
| "writes (Wrote w s # es) = (w, s) # writes es"
| "writes (_ # es) = writes es"

fun enumerations :: "'r event list \<Rightarrow> nat" where
  "enumerations [] = 0"
| "enumerations (Called_GetResources # es) = Suc (enumerations es)"
| "enumerations (_ # es) = enumerations es"

fun serializations :: "'r event list \<Rightarrow> nat" where
  "serializations [] = 0"
| "serializations (Called_MarshalIndent _ _ _ # es) = Suc (serializations es)"
| "serializations (_ # es) = serializations es"

text \<open>A text is a single line when it ends in its only newline.\<close>

definition single_line :: "string \<Rightarrow> bool" where
  "single_line s = (s \<noteq> [] \<and> last s = newline \<and> newline \<notin> set (butlast s))"

subsection \<open>What a run leaves behind\<close>

definition status_of :: "'r serializer \<Rightarrow> 'r host \<Rightarrow> int" where
  "status_of json h = fst (run json h)"

definition stdout_of :: "'r serializer \<Rightarrow> 'r host \<Rightarrow> string" where
  "stdout_of json h = stdout (snd (run json h))"

definition stderr_of :: "'r serializer \<Rightarrow> 'r host \<Rightarrow> string" where
  "stderr_of json h = stderr (snd (run json h))"

definition trace_of :: "'r serializer \<Rightarrow> 'r host \<Rightarrow> 'r event list" where
  "trace_of json h = events (snd (run json h))"

subsection \<open>Small serializers and hosts, for concrete runs\<close>

text \<open>
  Snapshots are numbers here. The serializer renders 0 and 1 and rejects every other
  number; with the rejection it hands back some bytes, which a caller must not print.
\<close>

definition demo_json :: "nat serializer" where
  "demo_json v prefix indent =
     (if v = 0 then (''null'', None)
      else if v = 1 then
        (''['' @ [newline] @ prefix @ indent @ ''1'' @ [newline] @ prefix @ '']'', None)
      else (''['', Some (Err ''json: unsupported value'')))"

definition good_host :: "nat host" where
  "good_host = \<lparr>Args = [''machine-resources''], Resources = (1, None)\<rparr>"

definition blind_host :: "nat host" where
  "blind_host = \<lparr>Args = [''machine-resources''], Resources = (0, Some (Err ''no cpus''))\<rparr>"

definition odd_host :: "nat host" where
  "odd_host = \<lparr>Args = [''machine-resources'', ''-v''], Resources = (7, None)\<rparr>"

text \<open>
  A serializer whose rejection carries a message of two lines, as the message of an error
  coming out of a \<^verbatim>\<open>MarshalJSON\<close> method may.
\<close>

definition wordy_json :: "nat serializer" where
  "wordy_json v prefix indent =
     ([], Some (Err (''json: error calling MarshalJSON for type T: bad'' @ [newline] @ ''value'')))"

text \<open>
  A host where enumeration fails with the message of \<open>blind_host\<close>, started with other
  arguments and handing back another value beside the error.
\<close>

definition dark_host :: "nat host" where
  "dark_host =
     \<lparr>Args = [''machine-resources'', ''--all''], Resources = (5, Some (Err ''no cpus''))\<rparr>"

section \<open>The three paths of main\<close>

lemma main_enumeration_fails:
  assumes "Resources h = (resources, Some e)"
  shows "main json h p =
           (Exited 1,
            p\<lparr>stdout := stdout p @ ''error: '' @ Error e @ [newline],
              events := events p @
                [Called_GetResources, Wrote Stdout (''error: '' @ Error e @ [newline])]\<rparr>)"
  using assms
  by (simp add: main_def seq_def GetResources_def Printf_def Fprintf_def Exit_def)

lemma main_serialization_fails:
  assumes "Resources h = (resources, None)"
    and "json resources [] [tab] = (data, Some e)"
  shows "main json h p =
           (Exited 1,
            p\<lparr>stdout := stdout p @ ''error: '' @ Error e @ [newline],
              events := events p @
                [Called_GetResources, Called_MarshalIndent resources [] [tab],
                 Wrote Stdout (''error: '' @ Error e @ [newline])]\<rparr>)"
  using assms
  by (simp add: main_def seq_def GetResources_def MarshalIndent_def skip_def
      Printf_def Fprintf_def Exit_def)

lemma main_succeeds:
  assumes "Resources h = (resources, None)"
    and "json resources [] [tab] = (data, None)"
  shows "main json h p =
           (Returned (),
            p\<lparr>stdout := stdout p @ data @ [newline],
              events := events p @
                [Called_GetResources, Called_MarshalIndent resources [] [tab],
                 Wrote Stdout (data @ [newline])]\<rparr>)"
  using assms
  by (simp add: main_def seq_def GetResources_def MarshalIndent_def skip_def
      Printf_def Fprintf_def)

lemma run_enumeration_fails:
  assumes "Resources h = (resources, Some e)"
  shows "run json h =
           (1, \<lparr>stdout = ''error: '' @ Error e @ [newline], stderr = [],
                events = [Called_GetResources,
                          Wrote Stdout (''error: '' @ Error e @ [newline])]\<rparr>)"
  by (simp add: run_def start_def main_enumeration_fails [OF assms])

lemma run_serialization_fails:
  assumes "Resources h = (resources, None)"
    and "json resources [] [tab] = (data, Some e)"
  shows "run json h =
           (1, \<lparr>stdout = ''error: '' @ Error e @ [newline], stderr = [],
                events = [Called_GetResources, Called_MarshalIndent resources [] [tab],
                          Wrote Stdout (''error: '' @ Error e @ [newline])]\<rparr>)"
  using assms by (simp add: run_def start_def main_serialization_fails [where json = json])

lemma run_succeeds:
  assumes "Resources h = (resources, None)"
    and "json resources [] [tab] = (data, None)"
  shows "run json h =
           (0, \<lparr>stdout = data @ [newline], stderr = [],
                events = [Called_GetResources, Called_MarshalIndent resources [] [tab],
                          Wrote Stdout (data @ [newline])]\<rparr>)"
  using assms by (simp add: run_def start_def main_succeeds [where json = json])

text \<open>Every run is on one of the three paths.\<close>

lemma run_cases:
  fixes h :: "'r host" and json :: "'r serializer"
  obtains (enumeration_fails) resources e where "Resources h = (resources, Some e)"
  | (serialization_fails) resources data e where
      "Resources h = (resources, None)" "json resources [] [tab] = (data, Some e)"
  | (succeeds) resources data where
      "Resources h = (resources, None)" "json resources [] [tab] = (data, None)"
proof (cases "Resources h")
  case (Pair resources err)
  show ?thesis
  proof (cases err)
    case None
    obtain data err' where j: "json resources [] [tab] = (data, err')"
      by (cases "json resources [] [tab]")
    show ?thesis
    proof (cases err')
      case None
      with j Pair \<open>err = None\<close> show ?thesis using succeeds by simp
    next
      case (Some e)
      with j Pair \<open>err = None\<close> show ?thesis using serialization_fails by simp
    qed
  next
    case (Some e)
    with Pair show ?thesis using enumeration_fails by simp
  qed
qed

lemma GetResources_ignores_Args:
  "GetResources (h\<lparr>Args := argv\<rparr>) = GetResources h"
  by (rule ext) (simp add: GetResources_def)

lemma main_ignores_Args:
  "main json (h\<lparr>Args := argv\<rparr>) = main json h"
  by (simp add: main_def GetResources_ignores_Args)

lemma main_reads_Resources_only:
  assumes "Resources h1 = Resources h2"
  shows "main json h1 = main json h2"
proof -
  have "GetResources h1 = GetResources h2"
    using assms by (intro ext) (simp add: GetResources_def)
  then show ?thesis
    by (simp add: main_def)
qed

subsection \<open>Three concrete runs, computed from the definitions\<close>

lemma run_good_host:
  "run demo_json good_host =
     (0, \<lparr>stdout = ''['' @ [newline, tab] @ ''1'' @ [newline] @ '']'' @ [newline],
          stderr = [],
          events = [Called_GetResources, Called_MarshalIndent 1 [] [tab],
                    Wrote Stdout (''['' @ [newline, tab] @ ''1'' @ [newline] @ '']'' @ [newline])]\<rparr>)"
  by (simp add: run_def main_def seq_def skip_def GetResources_def MarshalIndent_def
      Printf_def Fprintf_def start_def demo_json_def good_host_def)

lemma run_blind_host:
  "run demo_json blind_host =
     (1, \<lparr>stdout = ''error: no cpus'' @ [newline], stderr = [],
          events = [Called_GetResources, Wrote Stdout (''error: no cpus'' @ [newline])]\<rparr>)"
  by (simp add: run_def main_def seq_def GetResources_def Printf_def Fprintf_def Exit_def
      start_def blind_host_def)

lemma run_odd_host:
  "run demo_json odd_host =
     (1, \<lparr>stdout = ''error: json: unsupported value'' @ [newline], stderr = [],
          events = [Called_GetResources, Called_MarshalIndent 7 [] [tab],
                    Wrote Stdout (''error: json: unsupported value'' @ [newline])]\<rparr>)"
  by (simp add: run_def main_def seq_def skip_def GetResources_def MarshalIndent_def
      Printf_def Fprintf_def Exit_def start_def demo_json_def odd_host_def)

section \<open>The claims\<close>

text \<open>
  C1. When enumeration returns a snapshot without error and serializing it succeeds, standard
  output holds exactly the bytes \<^verbatim>\<open>json.MarshalIndent(snapshot, "", "\t")\<close> returned (the
  serialization indented with a tab), followed by one newline, and the exit status is 0.
\<close>

theorem success_prints_serialization:
  assumes "Resources h = (resources, None)"
    and "json resources [] [tab] = (data, None)"
  shows "stdout_of json h = data @ [newline] \<and> status_of json h = 0"
  using assms by (simp add: stdout_of_def status_of_def run_succeeds [where json = json])

theorem success_prints_serialization_witness:
  "Resources good_host = (1, None)
   \<and> demo_json 1 [] [tab] = (''['' @ [newline, tab] @ ''1'' @ [newline] @ '']'', None)
   \<and> stdout_of demo_json good_host = ''['' @ [newline, tab] @ ''1'' @ [newline] @ '']'' @ [newline]
   \<and> status_of demo_json good_host = 0"
proof -
  have r: "Resources good_host = (1, None)"
    by (simp add: good_host_def)
  have j: "demo_json 1 [] [tab] = (''['' @ [newline, tab] @ ''1'' @ [newline] @ '']'', None)"
    by (simp add: demo_json_def)
  show ?thesis
    using r j success_prints_serialization [where json = demo_json, OF r j] by simp
qed

text \<open>
  C2. When enumeration fails with the message M, standard output is exactly
  \<^verbatim>\<open>error: M\<close> followed by a newline, and the exit status is 1.
\<close>

theorem enumeration_failure_prints_message:
  assumes "Resources h = (resources, Some (Err M))"
  shows "stdout_of json h = ''error: '' @ M @ [newline] \<and> status_of json h = 1"
  by (simp add: stdout_of_def status_of_def run_enumeration_fails [OF assms])

theorem enumeration_failure_prints_message_witness:
  "Resources blind_host = (0, Some (Err ''no cpus''))
   \<and> stdout_of demo_json blind_host = ''error: no cpus'' @ [newline]
   \<and> status_of demo_json blind_host = 1"
proof -
  have r: "Resources blind_host = (0, Some (Err ''no cpus''))"
    by (simp add: blind_host_def)
  show ?thesis
    using r enumeration_failure_prints_message [OF r, of demo_json] by simp
qed

text \<open>
  C3. When enumeration succeeds and serializing the snapshot fails with the message M, the
  only thing ever written to standard output is the text \<^verbatim>\<open>error: M\<close> with a newline after
  it: it starts with the prefix \<^verbatim>\<open>error: \<close>, nothing is written before it (none of the bytes
  the serializer may have handed back), and the exit status is 1. That text is a single
  line exactly when the message M has no newline in it: the program prints the message
  as it is.
\<close>

theorem serialization_failure_prints_only_error_line:
  assumes "Resources h = (resources, None)"
    and "json resources [] [tab] = (data, Some (Err M))"
  shows "stdout_of json h = ''error: '' @ M @ [newline]
         \<and> writes (trace_of json h) = [(Stdout, ''error: '' @ M @ [newline])]
         \<and> status_of json h = 1
         \<and> single_line (stdout_of json h) = (newline \<notin> set M)"
  using assms
  by (simp add: stdout_of_def status_of_def trace_of_def single_line_def
      run_serialization_fails [where json = json])

theorem serialization_failure_prints_only_error_line_witness:
  "Resources odd_host = (7, None)
   \<and> demo_json 7 [] [tab] = (''['', Some (Err ''json: unsupported value''))
   \<and> stdout_of demo_json odd_host = ''error: json: unsupported value'' @ [newline]
   \<and> writes (trace_of demo_json odd_host)
       = [(Stdout, ''error: json: unsupported value'' @ [newline])]
   \<and> status_of demo_json odd_host = 1
   \<and> newline \<notin> set ''json: unsupported value''
   \<and> single_line (stdout_of demo_json odd_host)"
proof -
  have r: "Resources odd_host = (7, None)"
    by (simp add: odd_host_def)
  have j: "demo_json 7 [] [tab] = (''['', Some (Err ''json: unsupported value''))"
    by (simp add: demo_json_def)
  have n: "newline \<notin> set ''json: unsupported value''"
    by simp
  show ?thesis
    using r j n
      serialization_failure_prints_only_error_line [where json = demo_json, OF r j]
    by (simp add: single_line_def)
qed

text \<open>
  C3 as the specification words it (standard output is a single line whenever
  serialization fails) does not hold: enumeration succeeds on \<open>odd_host\<close>, \<open>wordy_json\<close>
  fails on its snapshot with a message of two lines, the exit status is 1, and standard
  output, which still starts with \<^verbatim>\<open>error: \<close>, is two lines.
\<close>

theorem serialization_failure_two_lines:
  "Resources odd_host = (7, None)
   \<and> wordy_json 7 [] [tab] =
       ([], Some (Err (''json: error calling MarshalJSON for type T: bad'' @ [newline] @ ''value'')))
   \<and> status_of wordy_json odd_host = 1
   \<and> stdout_of wordy_json odd_host =
       ''error: json: error calling MarshalJSON for type T: bad'' @ [newline] @ ''value'' @ [newline]
   \<and> \<not> single_line (stdout_of wordy_json odd_host)"
  by (simp add: stdout_of_def status_of_def single_line_def run_def main_def seq_def
      skip_def GetResources_def MarshalIndent_def Printf_def Fprintf_def Exit_def start_def
      wordy_json_def odd_host_def)

text \<open>
  C6. On every path (success, enumeration failure, serialization failure) the program
  writes nothing to standard error: at the end standard error is empty and no write of
  the run went to it. Every write, the error line included, goes to standard output.
\<close>

theorem nothing_written_to_stderr:
  "stderr_of json h = [] \<and> Stderr \<notin> fst ` set (writes (trace_of json h))"
  by (rule run_cases [where h = h and json = json])
    (simp_all add: stderr_of_def trace_of_def run_enumeration_fails
      run_serialization_fails [where json = json] run_succeeds [where json = json])

text \<open>
  C7. The program consumes no command-line arguments: started with any two argument
  vectors on a host where enumeration gives the same result, the two runs are the same,
  standard output and exit status included.
\<close>

theorem arguments_not_consumed:
  "run json (h\<lparr>Args := argv1\<rparr>) = run json (h\<lparr>Args := argv2\<rparr>)"
  by (simp add: run_def main_ignores_Args)

text \<open>
  C8. A run enumerates, then serializes, then prints, and \<^verbatim>\<open>main\<close> returns; or it ends with
  \<^verbatim>\<open>os.Exit(1)\<close> right after printing the message of the first step that failed.
  \<^verbatim>\<open>GetResources\<close> is called exactly once in every run; \<^verbatim>\<open>MarshalIndent\<close> is called once
  when enumeration succeeded and never when it failed; no step is tried again.
\<close>

theorem steps_once_in_order:
  "fst (main json h start) =
     (if snd (Resources h) = None \<and> snd (json (fst (Resources h)) [] [tab]) = None
      then Returned () else Exited 1)
   \<and> trace_of json h =
     (case Resources h of
        (resources, Some e) \<Rightarrow>
          [Called_GetResources, Wrote Stdout (''error: '' @ Error e @ [newline])]
      | (resources, None) \<Rightarrow>
          [Called_GetResources, Called_MarshalIndent resources [] [tab],
           Wrote Stdout
             (case json resources [] [tab] of
                (data, Some e) \<Rightarrow> ''error: '' @ Error e @ [newline]
              | (data, None) \<Rightarrow> data @ [newline])])
   \<and> enumerations (trace_of json h) = 1
   \<and> serializations (trace_of json h) = (if snd (Resources h) = None then 1 else 0)"
proof (cases rule: run_cases [where h = h and json = json])
  case (enumeration_fails resources e)
  then show ?thesis
    by (simp add: trace_of_def run_enumeration_fails main_enumeration_fails)
next
  case (serialization_fails resources data e)
  then show ?thesis
    by (simp add: trace_of_def run_serialization_fails [where json = json]
        main_serialization_fails [where json = json])
next
  case (succeeds resources data)
  then show ?thesis
    by (simp add: trace_of_def run_succeeds [where json = json]
        main_succeeds [where json = json])
qed

text \<open>
  C9. The exit status is 0 exactly when both the enumeration and the serialization
  succeed, it is 1 exactly when one of them fails, and it is never anything else.
\<close>

theorem exit_status_zero_or_one:
  "(status_of json h = 0) =
     (snd (Resources h) = None \<and> snd (json (fst (Resources h)) [] [tab]) = None)
   \<and> (status_of json h = 1) =
     (\<not> (snd (Resources h) = None \<and> snd (json (fst (Resources h)) [] [tab]) = None))
   \<and> (status_of json h = 0 \<or> status_of json h = 1)"
  by (rule run_cases [where h = h and json = json])
    (simp_all add: status_of_def run_enumeration_fails
      run_serialization_fails [where json = json] run_succeeds [where json = json])

text \<open>
  C10. The program is deterministic in the enumeration result: take two runs with the same
  serializer, on any two hosts and with any arguments. If \<^verbatim>\<open>GetResources\<close> returns the same
  snapshot and no error in both, or an error with the same message in both (whatever value
  it hands back beside the error), then both runs write the same bytes to standard output
  and end with the same status.
\<close>

theorem same_enumeration_same_run:
  assumes "(snd (Resources h1) = None \<and> snd (Resources h2) = None
            \<and> fst (Resources h1) = fst (Resources h2))
           \<or> (\<exists>e1 e2. snd (Resources h1) = Some e1 \<and> snd (Resources h2) = Some e2
                \<and> Error e1 = Error e2)"
  shows "stdout_of json h1 = stdout_of json h2 \<and> status_of json h1 = status_of json h2"
  using assms
proof (elim disjE conjE exE)
  assume "snd (Resources h1) = None" "snd (Resources h2) = None"
    "fst (Resources h1) = fst (Resources h2)"
  then have "Resources h1 = Resources h2"
    by (simp add: prod_eq_iff)
  then have "main json h1 = main json h2"
    by (rule main_reads_Resources_only)
  then show ?thesis
    by (simp add: stdout_of_def status_of_def run_def)
next
  fix e1 e2
  assume e: "snd (Resources h1) = Some e1" "snd (Resources h2) = Some e2"
    and m: "Error e1 = Error e2"
  have r1: "Resources h1 = (fst (Resources h1), Some e1)"
    using e by (simp add: prod_eq_iff)
  have r2: "Resources h2 = (fst (Resources h2), Some e2)"
    using e by (simp add: prod_eq_iff)
  show ?thesis
    using m
    by (simp add: stdout_of_def status_of_def run_enumeration_fails [OF r1]
        run_enumeration_fails [OF r2])
qed

theorem same_enumeration_same_run_witness:
  "((snd (Resources blind_host) = None \<and> snd (Resources dark_host) = None
     \<and> fst (Resources blind_host) = fst (Resources dark_host))
    \<or> (\<exists>e1 e2. snd (Resources blind_host) = Some e1 \<and> snd (Resources dark_host) = Some e2
         \<and> Error e1 = Error e2))
   \<and> Args blind_host \<noteq> Args dark_host
   \<and> Resources blind_host \<noteq> Resources dark_host
   \<and> stdout_of demo_json blind_host = stdout_of demo_json dark_host
   \<and> status_of demo_json blind_host = status_of demo_json dark_host"
proof -
  have r: "(snd (Resources blind_host) = None \<and> snd (Resources dark_host) = None
            \<and> fst (Resources blind_host) = fst (Resources dark_host))
           \<or> (\<exists>e1 e2. snd (Resources blind_host) = Some e1
                \<and> snd (Resources dark_host) = Some e2 \<and> Error e1 = Error e2)"
    by (simp add: blind_host_def dark_host_def)
  have d: "Args blind_host \<noteq> Args dark_host \<and> Resources blind_host \<noteq> Resources dark_host"
    by (simp add: blind_host_def dark_host_def)
  show ?thesis
    using r d same_enumeration_same_run [OF r, of demo_json] by simp
qed

end
